theory Spec2Isabelle
  imports Complex_Main "HOL-Library.Sublist"
begin

section \<open>Web log analytics dashboard: filtering, aggregation and accounts\<close>

text \<open>
  A shallow embedding of \<^verbatim>\<open>app.py\<close>: the data frame that \<^verbatim>\<open>load_data\<close> produces,
  \<^verbatim>\<open>filter_dataframe\<close>, the aggregations computed inside the chart and table callbacks, and
  the registration, login and routing callbacks.  The pandas and standard-library operations
  the code calls are modelled by what they compute on the values that reach them.
\<close>

subsection \<open>Dates and timestamps\<close>

text \<open>
  A \<^verbatim>\<open>datetime.date\<close> is year, month, day; Python orders dates lexicographically on
  these three numbers.
\<close>

record date =
  year :: nat
  month :: nat
  day :: nat

definition date_le :: "date \<Rightarrow> date \<Rightarrow> bool" where
  "date_le a b =
     (year a < year b \<or>
      (year a = year b \<and> (month a < month b \<or> (month a = month b \<and> day a \<le> day b))))"

text \<open>A parsed timestamp (one \<^verbatim>\<open>datetime64\<close> value that is not \<^verbatim>\<open>NaT\<close>).\<close>

record timestamp =
  ts_date :: date
  ts_hour :: nat
  ts_minute :: nat
  ts_second :: nat

subsection \<open>\<^verbatim>\<open>datetime.strptime(s, '%Y-%m-%d').date()\<close>\<close>

datatype exn = ValueError

text \<open>The position of the first occurrence of a value (\<^verbatim>\<open>list.index\<close>).\<close>

fun index_of :: "'a list \<Rightarrow> 'a \<Rightarrow> nat" where
  "index_of [] v = 0"
| "index_of (x # xs) v = (if x = v then 0 else Suc (index_of xs v))"

text \<open>\<^verbatim>\<open>int\<close> of one decimal digit.\<close>

definition digit_of :: "char \<Rightarrow> nat option" where
  "digit_of c =
     (if c \<in> set ''0123456789'' then Some (index_of ''0123456789'' c) else None)"

text \<open>
  The format compiles to the regular expression
  \<^verbatim>\<open>(?P<Y>\d\d\d\d)-(?P<m>1[0-2]|0[1-9]|[1-9])-(?P<d>3[0-1]|[1-2]\d|0[1-9]|[1-9]| [1-9])\<close>,
  matched at the start of the string.  Each group function lists, in the order of the
  alternatives, the value read and the rest of the string.
\<close>

fun match_Y :: "string \<Rightarrow> (nat \<times> string) list" where
  "match_Y (a # b # c # d # rest) =
     (case (digit_of a, digit_of b, digit_of c, digit_of d) of
        (Some p, Some q, Some r, Some s) \<Rightarrow> [(1000 * p + 100 * q + 10 * r + s, rest)]
      | _ \<Rightarrow> [])"
| "match_Y _ = []"

definition two_chars :: "(char \<Rightarrow> bool) \<Rightarrow> (char \<Rightarrow> bool) \<Rightarrow> string \<Rightarrow> (nat \<times> string) list" where
  "two_chars p q s =
     (case s of
        a # b # rest \<Rightarrow>
          (if p a \<and> q b then [(10 * the (digit_of a) + the (digit_of b), rest)] else [])
      | _ \<Rightarrow> [])"

definition one_char :: "(char \<Rightarrow> bool) \<Rightarrow> string \<Rightarrow> (nat \<times> string) list" where
  "one_char p s =
     (case s of a # rest \<Rightarrow> (if p a then [(the (digit_of a), rest)] else []) | _ \<Rightarrow> [])"

definition in_chars :: "string \<Rightarrow> char \<Rightarrow> bool" where
  "in_chars cs c = (c \<in> set cs)"

definition match_m :: "string \<Rightarrow> (nat \<times> string) list" where
  "match_m s =
     two_chars (in_chars ''1'') (in_chars ''012'') s
     @ two_chars (in_chars ''0'') (in_chars ''123456789'') s
     @ one_char (in_chars ''123456789'') s"

definition match_d :: "string \<Rightarrow> (nat \<times> string) list" where
  "match_d s =
     two_chars (in_chars ''3'') (in_chars ''01'') s
     @ two_chars (in_chars ''12'') (in_chars ''0123456789'') s
     @ two_chars (in_chars ''0'') (in_chars ''123456789'') s
     @ one_char (in_chars ''123456789'') s
     @ (case s of a # rest \<Rightarrow> (if a = CHR '' '' then one_char (in_chars ''123456789'') rest else [])
        | _ \<Rightarrow> [])"

definition literal_dash :: "string \<Rightarrow> string list" where
  "literal_dash s = (case s of a # rest \<Rightarrow> (if a = CHR ''-'' then [rest] else []) | _ \<Rightarrow> [])"

text \<open>
  All ways the expression matches a prefix, in the order the backtracking matcher tries
  them; \<^verbatim>\<open>re.match\<close> returns the first.
\<close>

definition regex_matches :: "string \<Rightarrow> ((nat \<times> nat \<times> nat) \<times> string) list" where
  "regex_matches s =
     concat (map (\<lambda>(y, r1).
       concat (map (\<lambda>r2.
         concat (map (\<lambda>(m, r3).
           concat (map (\<lambda>r4.
             map (\<lambda>(d, r5). ((y, m, d), r5)) (match_d r4))
           (literal_dash r3)))
         (match_m r2)))
       (literal_dash r1)))
     (match_Y s))"

definition is_leap :: "nat \<Rightarrow> bool" where
  "is_leap y = (y mod 4 = 0 \<and> (y mod 100 \<noteq> 0 \<or> y mod 400 = 0))"

definition days_in_month :: "nat \<Rightarrow> nat \<Rightarrow> nat" where
  "days_in_month y m =
     (if m = 2 then (if is_leap y then 29 else 28)
      else if m = 4 \<or> m = 6 \<or> m = 9 \<or> m = 11 then 30 else 31)"

text \<open>
  \<^verbatim>\<open>strptime\<close> raises \<^verbatim>\<open>ValueError\<close> when the string does not match, when the match
  leaves unconverted data, and when the \<^verbatim>\<open>datetime\<close> constructor rejects the numbers
  (year 0, a day beyond the month's length).
\<close>

definition strptime_date :: "string \<Rightarrow> exn + date" where
  "strptime_date s =
     (case regex_matches s of
        [] \<Rightarrow> Inl ValueError
      | ((y, m, d), rest) # _ \<Rightarrow>
          (if rest \<noteq> [] then Inl ValueError
           else if 1 \<le> y \<and> 1 \<le> m \<and> m \<le> 12 \<and> 1 \<le> d \<and> d \<le> days_in_month y m
           then Inr \<lparr>year = y, month = m, day = d\<rparr>
           else Inl ValueError))"

subsection \<open>The record store\<close>

text \<open>
  One row of the frame \<^verbatim>\<open>load_data\<close> returns.  \<^verbatim>\<open>pd.to_datetime(..., errors='coerce')\<close>
  leaves \<^verbatim>\<open>NaT\<close> where a value did not parse: \<open>None\<close> in \<open>timestamp\<close>.  A categorical
  cell is a string, or missing (\<^verbatim>\<open>NaN\<close>): \<open>None\<close>.  The column \<^verbatim>\<open>hour\<close> is derived from
  the timestamp (\<^verbatim>\<open>df['timestamp'].dt.hour\<close>), so it is a function of the row.
\<close>

record row =
  timestamp :: "timestamp option"
  country :: "string option"
  continent :: "string option"
  age_group :: "string option"
  request_type :: "string option"

type_synonym frame = "row list"

definition hour :: "row \<Rightarrow> nat option" where
  "hour r = map_option ts_hour (timestamp r)"

subsection \<open>\<^verbatim>\<open>filter_dataframe\<close>\<close>

text \<open>
  The date pickers hand over a string; \<^verbatim>\<open>reset_filters\<close> hands over a \<^verbatim>\<open>date\<close> object.
  Only a string goes through \<^verbatim>\<open>strptime\<close>.  A bound that is neither (the \<^verbatim>\<open>None\<close> of a
  cleared date picker) is not part of this model.
\<close>

datatype date_arg = DateStr string | DateObj date

definition to_date :: "date_arg \<Rightarrow> exn + date" where
  "to_date a = (case a of DateStr s \<Rightarrow> strptime_date s | DateObj d \<Rightarrow> Inr d)"

text \<open>
  \<^verbatim>\<open>filtered_df['timestamp'].dt.date >= start_date\<close>: an element-wise comparison of an object
  column with a scalar, which is \<^verbatim>\<open>False\<close> at every null element.
\<close>

definition date_ge_mask :: "date \<Rightarrow> row \<Rightarrow> bool" where
  "date_ge_mask s r = (case timestamp r of None \<Rightarrow> False | Some t \<Rightarrow> date_le s (ts_date t))"

definition date_le_mask :: "date \<Rightarrow> row \<Rightarrow> bool" where
  "date_le_mask e r = (case timestamp r of None \<Rightarrow> False | Some t \<Rightarrow> date_le (ts_date t) e)"

text \<open>\<^verbatim>\<open>Series.isin(values)\<close>: a missing cell is in no list of strings.\<close>

definition isin :: "string option \<Rightarrow> string list \<Rightarrow> bool" where
  "isin v vs = (case v of None \<Rightarrow> False | Some x \<Rightarrow> x \<in> set vs)"

text \<open>
  The selections are lists; an empty list (or \<^verbatim>\<open>None\<close>, modelled as the empty list) is
  falsy and skips its filter.  The four columns are always present after \<^verbatim>\<open>load_data\<close>.
  Any exception inside the \<^verbatim>\<open>try\<close> block returns the frame that was passed in.
\<close>

definition filter_dataframe ::
  "frame \<Rightarrow> string list \<Rightarrow> string list \<Rightarrow> string list \<Rightarrow> string list
     \<Rightarrow> date_arg \<Rightarrow> date_arg \<Rightarrow> frame" where
  "filter_dataframe df continents countries age_groups request_types start_date end_date =
     (case to_date start_date of
        Inl _ \<Rightarrow> df
      | Inr s \<Rightarrow>
     (case to_date end_date of
        Inl _ \<Rightarrow> df
      | Inr e \<Rightarrow>
          (let f1 = filter (\<lambda>r. date_ge_mask s r \<and> date_le_mask e r) df;
               f2 = (if continents \<noteq> [] then filter (\<lambda>r. isin (continent r) continents) f1 else f1);
               f3 = (if countries \<noteq> [] then filter (\<lambda>r. isin (country r) countries) f2 else f2);
               f4 = (if age_groups \<noteq> [] then filter (\<lambda>r. isin (age_group r) age_groups) f3 else f3);
               f5 = (if request_types \<noteq> [] then filter (\<lambda>r. isin (request_type r) request_types) f4
                     else f4)
           in f5)))"


text \<open>
  The same function on an object store, to see which objects it writes.  A frame object is
  an index into the store.  \<^verbatim>\<open>df.copy()\<close> and every boolean-mask selection allocate a new
  frame; the local name \<^verbatim>\<open>filtered_df\<close> is rebound to it.  The \<^verbatim>\<open>except\<close> branch returns
  the object \<^verbatim>\<open>df\<close> itself.
\<close>

type_synonym store = "frame list"

definition alloc :: "store \<Rightarrow> frame \<Rightarrow> nat \<times> store" where
  "alloc \<sigma> f = (length \<sigma>, \<sigma> @ [f])"

definition select_rows :: "(row \<Rightarrow> bool) \<Rightarrow> nat \<times> store \<Rightarrow> nat \<times> store" where
  "select_rows p fs = (case fs of (filtered_df, \<sigma>) \<Rightarrow> alloc \<sigma> (filter p (\<sigma> ! filtered_df)))"

definition filter_dataframe_st ::
  "store \<Rightarrow> nat \<Rightarrow> string list \<Rightarrow> string list \<Rightarrow> string list \<Rightarrow> string list
     \<Rightarrow> date_arg \<Rightarrow> date_arg \<Rightarrow> nat \<times> store" where
  "filter_dataframe_st \<sigma> df continents countries age_groups request_types start_date end_date =
     (let c0 = alloc \<sigma> (\<sigma> ! df) in
      case to_date start_date of
        Inl _ \<Rightarrow> (df, snd c0)
      | Inr s \<Rightarrow>
     (case to_date end_date of
        Inl _ \<Rightarrow> (df, snd c0)
      | Inr e \<Rightarrow>
          (let c1 = select_rows (\<lambda>r. date_ge_mask s r \<and> date_le_mask e r) c0;
               c2 = (if continents \<noteq> [] then select_rows (\<lambda>r. isin (continent r) continents) c1
                     else c1);
               c3 = (if countries \<noteq> [] then select_rows (\<lambda>r. isin (country r) countries) c2
                     else c2);
               c4 = (if age_groups \<noteq> [] then select_rows (\<lambda>r. isin (age_group r) age_groups) c3
                     else c3);
               c5 = (if request_types \<noteq> []
                     then select_rows (\<lambda>r. isin (request_type r) request_types) c4 else c4)
           in c5)))"

subsection \<open>Aggregations\<close>

text \<open>
  The numbers \<^verbatim>\<open>update_metrics\<close> computes from the filtered frame, before it renders them
  with \<^verbatim>\<open>f"{n:,}"\<close>.  \<^verbatim>\<open>filtered_df['request_type'] == 'demo'\<close> is false at a missing cell.
\<close>

record metrics =
  total_requests :: nat
  demo_requests :: nat
  job_placements :: nat
  ai_assistant :: nat

definition metric_counts :: "frame \<Rightarrow> metrics" where
  "metric_counts filtered_df =
     \<lparr>total_requests = length filtered_df,
      demo_requests = length (filter (\<lambda>r. request_type r = Some ''demo'') filtered_df),
      job_placements = length (filter (\<lambda>r. request_type r = Some ''job'') filtered_df),
      ai_assistant = length (filter (\<lambda>r. request_type r = Some ''ai_assistant'') filtered_df)\<rparr>"

definition update_metrics ::
  "frame \<Rightarrow> string list \<Rightarrow> string list \<Rightarrow> string list \<Rightarrow> string list
     \<Rightarrow> date_arg \<Rightarrow> date_arg \<Rightarrow> metrics" where
  "update_metrics df continents countries age_groups request_types start_date end_date =
     metric_counts
       (filter_dataframe df continents countries age_groups request_types start_date end_date)"

text \<open>
  \<^verbatim>\<open>Series.unique()\<close>: the distinct values in order of first appearance, a missing value
  among them.
\<close>

definition unique :: "'a list \<Rightarrow> 'a list" where
  "unique xs = rev (remdups (rev xs))"

text \<open>
  \<^verbatim>\<open>Series.value_counts()\<close>: missing cells are dropped (\<^verbatim>\<open>dropna=True\<close>), each distinct
  value is counted, and the pairs are sorted by descending count.  The order among equal
  counts is modelled as the order of first appearance.
\<close>

definition dropna :: "'a option list \<Rightarrow> 'a list" where
  "dropna col = concat (map (\<lambda>v. case v of None \<Rightarrow> [] | Some x \<Rightarrow> [x]) col)"

definition value_counts :: "string option list \<Rightarrow> (string \<times> nat) list" where
  "value_counts col =
     (let vals = dropna col
      in sort_key (\<lambda>(v, c). - int c) (map (\<lambda>v. (v, count_list vals v)) (unique vals)))"

text \<open>The table behind the pie chart of \<^verbatim>\<open>update_request_type_pie\<close>.\<close>

definition request_type_counts :: "frame \<Rightarrow> (string \<times> nat) list" where
  "request_type_counts filtered_df = value_counts (map request_type filtered_df)"

definition update_request_type_pie ::
  "frame \<Rightarrow> string list \<Rightarrow> string list \<Rightarrow> string list \<Rightarrow> string list
     \<Rightarrow> date_arg \<Rightarrow> date_arg \<Rightarrow> (string \<times> nat) list" where
  "update_request_type_pie df continents countries age_groups request_types start_date end_date =
     request_type_counts
       (filter_dataframe df continents countries age_groups request_types start_date end_date)"

text \<open>
  The table behind the bar chart of \<^verbatim>\<open>update_age_group_chart\<close>.  \<^verbatim>\<open>pd.Categorical\<close> with
  the categories \<^verbatim>\<open>age_order\<close> turns every other value into a missing category, and
  \<^verbatim>\<open>sort_values\<close> sorts by position in \<^verbatim>\<open>age_order\<close> with the missing ones last.
\<close>

definition age_order :: "string list" where
  "age_order = [''18-24'', ''25-34'', ''35-44'', ''45-54'', ''55-64'', ''65+'']"

definition categorical :: "string list \<Rightarrow> string \<Rightarrow> string option" where
  "categorical categories v = (if v \<in> set categories then Some v else None)"

definition category_code :: "string list \<Rightarrow> string option \<Rightarrow> nat" where
  "category_code categories c =
     (case c of None \<Rightarrow> length categories | Some v \<Rightarrow> index_of categories v)"

definition age_group_counts :: "frame \<Rightarrow> (string option \<times> nat) list" where
  "age_group_counts filtered_df =
     sort_key (\<lambda>(g, c). category_code age_order g)
       (map (\<lambda>(v, c). (categorical age_order v, c)) (value_counts (map age_group filtered_df)))"


text \<open>
  One row of the table of \<^verbatim>\<open>update_statistics_table\<close>.  Floating-point numbers are
  modelled by reals, \<^verbatim>\<open>NaN\<close> by \<open>None\<close>; the code prints them with \<^verbatim>\<open>f"{x:.2f}"\<close>.
\<close>

record stat =
  st_request_type :: "string option"
  st_total :: nat
  st_mean :: "real option"
  st_std :: "real option"
  st_peak_hour :: nat

text \<open>\<^verbatim>\<open>filtered_df['request_type'] == req_type\<close>: false wherever either side is missing.\<close>

definition eq_mask :: "string option \<Rightarrow> string option \<Rightarrow> bool" where
  "eq_mask cell req_type = (cell \<noteq> None \<and> req_type \<noteq> None \<and> cell = req_type)"

text \<open>
  \<^verbatim>\<open>req_df.groupby('hour').size().reset_index(name='count')\<close>: one line per distinct hour,
  in ascending order of the hour, rows without an hour dropped.
\<close>

definition hourly_counts :: "frame \<Rightarrow> (nat \<times> nat) list" where
  "hourly_counts req_df =
     (let hs = dropna (map hour req_df)
      in map (\<lambda>h. (h, count_list hs h)) (sort (remdups hs)))"

text \<open>\<^verbatim>\<open>Series.mean()\<close>: \<^verbatim>\<open>NaN\<close> on an empty series.\<close>

definition series_mean :: "nat list \<Rightarrow> real option" where
  "series_mean cs = (if cs = [] then None else Some (real (sum_list cs) / real (length cs)))"

text \<open>\<^verbatim>\<open>Series.std()\<close>: the sample standard deviation (\<^verbatim>\<open>ddof=1\<close>), \<^verbatim>\<open>NaN\<close> below two points.\<close>

definition series_std :: "nat list \<Rightarrow> real option" where
  "series_std cs =
     (if length cs < 2 then None
      else (let m = real (sum_list cs) / real (length cs)
            in Some (sqrt (sum_list (map (\<lambda>c. (real c - m)\<^sup>2) cs) / real (length cs - 1)))))"

text \<open>
  \<^verbatim>\<open>Series.idxmax()\<close>: the label of the first occurrence of the maximum; it raises
  \<^verbatim>\<open>ValueError\<close> on an empty series.  After \<^verbatim>\<open>reset_index\<close> the labels are the positions.
\<close>

definition idxmax :: "nat list \<Rightarrow> exn + nat" where
  "idxmax cs = (case cs of [] \<Rightarrow> Inl ValueError | c # cs' \<Rightarrow> Inr (index_of cs (fold max cs' c)))"

definition request_type_stats :: "frame \<Rightarrow> string option \<Rightarrow> exn + stat" where
  "request_type_stats filtered_df req_type =
     (let req_df = filter (\<lambda>r. eq_mask (request_type r) req_type) filtered_df;
          hourly = hourly_counts req_df;
          mean_requests = series_mean (map snd hourly);
          std_requests = series_std (map snd hourly)
      in case idxmax (map snd hourly) of
           Inl e \<Rightarrow> Inl e
         | Inr i \<Rightarrow>
             Inr \<lparr>st_request_type = req_type, st_total = length req_df,
                  st_mean = mean_requests, st_std = std_requests,
                  st_peak_hour = fst (hourly ! i)\<rparr>)"

fun stats_loop :: "frame \<Rightarrow> string option list \<Rightarrow> exn + stat list" where
  "stats_loop filtered_df [] = Inr []"
| "stats_loop filtered_df (req_type # rest) =
     (case request_type_stats filtered_df req_type of
        Inl e \<Rightarrow> Inl e
      | Inr st \<Rightarrow>
          (case stats_loop filtered_df rest of Inl e \<Rightarrow> Inl e | Inr sts \<Rightarrow> Inr (st # sts)))"

text \<open>
  The result is the table, the text "No data available for the selected filters." when
  the loop produced no row, or the error text that \<^verbatim>\<open>handle_error\<close> substitutes when the
  loop raised.
\<close>

datatype stats_view = StatsTable "stat list" | NoData | ErrorLoadingStatistics

definition update_statistics_table ::
  "frame \<Rightarrow> string list \<Rightarrow> string list \<Rightarrow> string list \<Rightarrow> string list
     \<Rightarrow> date_arg \<Rightarrow> date_arg \<Rightarrow> stats_view" where
  "update_statistics_table df continents countries age_groups request_types start_date end_date =
     (let filtered_df =
            filter_dataframe df continents countries age_groups request_types start_date end_date
      in case stats_loop filtered_df (unique (map request_type filtered_df)) of
           Inl _ \<Rightarrow> ErrorLoadingStatistics
         | Inr stats \<Rightarrow> (if stats \<noteq> [] then StatsTable stats else NoData))"

subsection \<open>Accounts\<close>

text \<open>
  \<^verbatim>\<open>USERS\<close> is a dictionary from username to the account's dictionary; insertion order
  is kept.  The state is \<^verbatim>\<open>USERS\<close> and the content of the file \<^verbatim>\<open>users.pickle\<close>
  (\<open>None\<close> while the file does not exist).
\<close>

record account =
  u_id :: string
  u_username :: string
  u_password :: string
  u_email :: "string option"

type_synonym users = "(string \<times> account) list"


definition default_users :: users where
  "default_users =
     [(''admin'', \<lparr>u_id = ''admin'', u_username = ''admin'', u_password = ''password123'',
                  u_email = Some ''admin@example.com''\<rparr>),
      (''user'', \<lparr>u_id = ''user'', u_username = ''user'', u_password = ''password124'',
                 u_email = Some ''user@example.com''\<rparr>)]"




text \<open>A callback output: a value, or \<^verbatim>\<open>dash.no_update\<close>.\<close>

datatype 'a out = no_update | Val 'a




subsection \<open>Login and page routing\<close>

text \<open>
  What one browser holds: the pathname of \<^verbatim>\<open>dcc.Location\<close> and the user id that
  \<^verbatim>\<open>login_user\<close> stores in the Flask session (\<open>None\<close> when nobody is logged in).
\<close>

record client =
  pathname :: string
  session_user :: "string option"

datatype page = login_layout | register_layout | dashboard_layout | page_not_found

definition display_page :: "string \<Rightarrow> page" where
  "display_page path =
     (if path = ''/login'' \<or> path = ''/'' then login_layout
      else if path = ''/register'' then register_layout
      else if path = ''/dashboard'' then dashboard_layout
      else page_not_found)"

definition lookup :: "('k \<times> 'v) list \<Rightarrow> 'k \<Rightarrow> 'v option" where
  "lookup d k = map_of d k"

definition login ::
  "users \<Rightarrow> int \<Rightarrow> string option \<Rightarrow> string option \<Rightarrow> client
     \<Rightarrow> (string out \<times> string out) \<times> client" where
  "login us n_clicks username password c =
     (if n_clicks > 0 then
        (case username of
           None \<Rightarrow> ((Val ''/login'', Val ''Invalid username or password''), c)
         | Some u \<Rightarrow>
             (case lookup us u of
                None \<Rightarrow> ((Val ''/login'', Val ''Invalid username or password''), c)
              | Some user_data \<Rightarrow>
                  (if Some (u_password user_data) = password
                   then ((Val ''/dashboard'', Val []), c\<lparr>session_user := Some (u_id user_data)\<rparr>)
                   else ((Val ''/login'', Val ''Invalid username or password''), c))))
      else ((no_update, no_update), c))"

definition logout :: "int option \<Rightarrow> client \<Rightarrow> string out \<times> client" where
  "logout n_clicks c =
     (case n_clicks of
        None \<Rightarrow> (no_update, c)
      | Some n \<Rightarrow> (if n \<noteq> 0 then (Val ''/login'', c\<lparr>session_user := None\<rparr>) else (no_update, c)))"

text \<open>
  What a user can do to a browser session: put a URL into the address bar, press the login
  button with the two inputs filled, press the logout button.  An output written to
  \<^verbatim>\<open>url.pathname\<close> changes the pathname, and \<^verbatim>\<open>display_page\<close> renders the page for it.
\<close>

datatype event =
    Navigate string
  | LoginClick "string option" "string option"
  | LogoutClick

definition set_pathname :: "string out \<Rightarrow> client \<Rightarrow> client" where
  "set_pathname out c = (case out of no_update \<Rightarrow> c | Val p \<Rightarrow> c\<lparr>pathname := p\<rparr>)"

fun step :: "users \<Rightarrow> client \<Rightarrow> event \<Rightarrow> client" where
  "step us c (Navigate p) = c\<lparr>pathname := p\<rparr>"
| "step us c (LoginClick username password) =
     (case login us 1 username password c of ((path, _), c') \<Rightarrow> set_pathname path c')"
| "step us c LogoutClick = (case logout (Some 1) c of (path, c') \<Rightarrow> set_pathname path c')"

definition run :: "users \<Rightarrow> client \<Rightarrow> event list \<Rightarrow> client" where
  "run us c evs = foldl (step us) c evs"

definition initial_client :: client where
  "initial_client = \<lparr>pathname = ''/'', session_user = None\<rparr>"

definition page_content :: "client \<Rightarrow> page" where
  "page_content c = display_page (pathname c)"


subsection \<open>Auxiliary notions for the properties\<close>

text \<open>The conjunction of the masks that \<^verbatim>\<open>filter_dataframe\<close> applies one after the other.\<close>

definition row_selected ::
  "date \<Rightarrow> date \<Rightarrow> string list \<Rightarrow> string list \<Rightarrow> string list \<Rightarrow> string list \<Rightarrow> row \<Rightarrow> bool" where
  "row_selected s e continents countries age_groups request_types r =
     (date_ge_mask s r \<and> date_le_mask e r
      \<and> (continents = [] \<or> isin (continent r) continents)
      \<and> (countries = [] \<or> isin (country r) countries)
      \<and> (age_groups = [] \<or> isin (age_group r) age_groups)
      \<and> (request_types = [] \<or> isin (request_type r) request_types))"

text \<open>
  A frame object \<open>fst c\<close> in the store \<open>snd c\<close> that was allocated after the objects of
  \<open>\<sigma>\<close>, holds \<open>f\<close>, and left every object of \<open>\<sigma>\<close> as it was.
\<close>

definition store_ok :: "store \<Rightarrow> frame \<Rightarrow> nat \<times> store \<Rightarrow> bool" where
  "store_ok \<sigma> f c =
     (length \<sigma> \<le> fst c \<and> fst c < length (snd c) \<and> take (length \<sigma>) (snd c) = \<sigma>
      \<and> snd c ! fst c = f)"

text \<open>Rows for concrete stores: a timestamp in January 2023 and the three categorical cells.\<close>

definition jan_2023 :: "nat \<Rightarrow> nat \<Rightarrow> nat \<Rightarrow> nat \<Rightarrow> timestamp" where
  "jan_2023 d h m s =
     \<lparr>ts_date = \<lparr>year = 2023, month = 1, day = d\<rparr>, ts_hour = h, ts_minute = m, ts_second = s\<rparr>"

definition log_row :: "timestamp option \<Rightarrow> string option \<Rightarrow> string \<Rightarrow> string \<Rightarrow> row" where
  "log_row t rt c ag =
     \<lparr>timestamp = t, country = Some c, continent = Some ''North America'', age_group = Some ag,
      request_type = rt\<rparr>"

text \<open>
  The store of the specification's scenario: three requests, on 1, 2 and 5 January 2023.
\<close>

definition scenario_store :: frame where
  "scenario_store =
     [log_row (Some (jan_2023 1 0 0 0)) (Some ''demo'') ''United States'' ''25-34'',
      log_row (Some (jan_2023 2 0 0 0)) (Some ''job'') ''Canada'' ''35-44'',
      log_row (Some (jan_2023 5 0 0 0)) (Some ''demo'') ''United States'' ''25-34'']"

text \<open>The scenario's store with one more row whose timestamp did not parse.\<close>

definition store_with_nat :: frame where
  "store_with_nat = scenario_store @ [log_row None (Some ''job'') ''Canada'' ''35-44'']"

text \<open>The line of the age-group table for a group: the group and how often it occurs.\<close>

definition age_entry :: "frame \<Rightarrow> string \<Rightarrow> string option \<times> nat" where
  "age_entry df g = (Some g, count_list (map age_group df) (Some g))"

text \<open>A store with all six age groups, out of order, and one value outside the six.\<close>

definition six_groups_store :: frame where
  "six_groups_store =
     map (log_row (Some (jan_2023 3 12 0 0)) (Some ''demo'') ''Canada'')
       [''65+'', ''18-24'', ''45-54'', ''Unknown'', ''25-34'', ''55-64'', ''35-44'', ''18-24'']"





section \<open>Properties\<close>

subsection \<open>Evaluating the date parser\<close>

lemmas strptime_defs =
  strptime_date_def regex_matches_def match_m_def match_d_def two_chars_def one_char_def
  in_chars_def literal_dash_def digit_of_def days_in_month_def is_leap_def

lemma strptime_2023_01_01:
  "to_date (DateStr ''2023-01-01'') = Inr \<lparr>year = 2023, month = 1, day = 1\<rparr>"
  by (simp add: to_date_def strptime_defs)

lemma strptime_2023_01_02:
  "to_date (DateStr ''2023-01-02'') = Inr \<lparr>year = 2023, month = 1, day = 2\<rparr>"
  by (simp add: to_date_def strptime_defs)

lemma strptime_2023_01_05:
  "to_date (DateStr ''2023-01-05'') = Inr \<lparr>year = 2023, month = 1, day = 5\<rparr>"
  by (simp add: to_date_def strptime_defs)

lemma strptime_not_a_date: "to_date (DateStr ''not-a-date'') = Inl ValueError"
  by (simp add: to_date_def strptime_defs)

lemmas row_eval =
  log_row_def jan_2023_def date_ge_mask_def date_le_mask_def date_le_def isin_def

subsection \<open>The two paths of \<^verbatim>\<open>filter_dataframe\<close>\<close>

lemma to_date_cases:
  obtains (raised) x where "to_date start_date = Inl x \<or> to_date end_date = Inl x"
  | (parsed) s e where "to_date start_date = Inr s" "to_date end_date = Inr e"
  by (cases "to_date start_date"; cases "to_date end_date") auto

lemma filter_dataframe_parsed:
  assumes "to_date start_date = Inr s" and "to_date end_date = Inr e"
  shows "filter_dataframe df continents countries age_groups request_types start_date end_date
         = filter (row_selected s e continents countries age_groups request_types) df"
  using assms
  by (auto simp: filter_dataframe_def row_selected_def Let_def intro!: filter_cong)

lemma filter_dataframe_raised:
  assumes "to_date start_date = Inl x \<or> to_date end_date = Inl x"
  shows "filter_dataframe df continents countries age_groups request_types start_date end_date = df"
  using assms
  by (auto simp: filter_dataframe_def split: sum.splits)

lemma alloc_ok:
  assumes "take (length \<sigma>) \<sigma>' = \<sigma>" and "length \<sigma> \<le> length \<sigma>'"
  shows "store_ok \<sigma> f (alloc \<sigma>' f)"
  using assms by (simp add: store_ok_def alloc_def nth_append)

lemma select_rows_ok:
  assumes "store_ok \<sigma> f c"
  shows "store_ok \<sigma> (filter p f) (select_rows p c)"
proof -
  obtain a \<sigma>' where c: "c = (a, \<sigma>')" by (cases c)
  from assms c have "take (length \<sigma>) \<sigma>' = \<sigma>" "length \<sigma> \<le> length \<sigma>'" "\<sigma>' ! a = f"
    by (auto simp: store_ok_def)
  then show ?thesis
    using alloc_ok [of \<sigma> \<sigma>' "filter p f"] by (simp add: select_rows_def c)
qed

lemma select_rows_if_ok:
  assumes "store_ok \<sigma> f c"
  shows "store_ok \<sigma> (if b then filter p f else f) (if b then select_rows p c else c)"
  using assms select_rows_ok by simp

lemma filter_dataframe_st_parsed:
  assumes "to_date start_date = Inr s" and "to_date end_date = Inr e"
  shows "store_ok \<sigma>
           (filter_dataframe (\<sigma> ! df) continents countries age_groups request_types
              start_date end_date)
           (filter_dataframe_st \<sigma> df continents countries age_groups request_types
              start_date end_date)"
proof -
  define f1 where "f1 = filter (\<lambda>r. date_ge_mask s r \<and> date_le_mask e r) (\<sigma> ! df)"
  define f2 where
    "f2 = (if continents \<noteq> [] then filter (\<lambda>r. isin (continent r) continents) f1 else f1)"
  define f3 where
    "f3 = (if countries \<noteq> [] then filter (\<lambda>r. isin (country r) countries) f2 else f2)"
  define f4 where
    "f4 = (if age_groups \<noteq> [] then filter (\<lambda>r. isin (age_group r) age_groups) f3 else f3)"
  define f5 where
    "f5 = (if request_types \<noteq> [] then filter (\<lambda>r. isin (request_type r) request_types) f4
           else f4)"
  define c1 where
    "c1 = select_rows (\<lambda>r. date_ge_mask s r \<and> date_le_mask e r) (alloc \<sigma> (\<sigma> ! df))"
  define c2 where
    "c2 = (if continents \<noteq> [] then select_rows (\<lambda>r. isin (continent r) continents) c1 else c1)"
  define c3 where
    "c3 = (if countries \<noteq> [] then select_rows (\<lambda>r. isin (country r) countries) c2 else c2)"
  define c4 where
    "c4 = (if age_groups \<noteq> [] then select_rows (\<lambda>r. isin (age_group r) age_groups) c3 else c3)"
  define c5 where
    "c5 = (if request_types \<noteq> [] then select_rows (\<lambda>r. isin (request_type r) request_types) c4
           else c4)"
  have "store_ok \<sigma> (\<sigma> ! df) (alloc \<sigma> (\<sigma> ! df))"
    by (rule alloc_ok) simp_all
  then have "store_ok \<sigma> f1 c1"
    unfolding f1_def c1_def by (rule select_rows_ok)
  then have "store_ok \<sigma> f2 c2"
    unfolding f2_def c2_def by (rule select_rows_if_ok)
  then have "store_ok \<sigma> f3 c3"
    unfolding f3_def c3_def by (rule select_rows_if_ok)
  then have "store_ok \<sigma> f4 c4"
    unfolding f4_def c4_def by (rule select_rows_if_ok)
  then have ok: "store_ok \<sigma> f5 c5"
    unfolding f5_def c5_def by (rule select_rows_if_ok)
  have "filter_dataframe (\<sigma> ! df) continents countries age_groups request_types
          start_date end_date = f5"
    unfolding filter_dataframe_def Let_def f5_def f4_def f3_def f2_def f1_def
    by (simp only: assms sum.case)
  moreover have "filter_dataframe_st \<sigma> df continents countries age_groups request_types
                   start_date end_date = c5"
    unfolding filter_dataframe_st_def Let_def c5_def c4_def c3_def c2_def c1_def
    by (simp only: assms sum.case)
  ultimately show ?thesis using ok by simp
qed

lemma filter_dataframe_st_raised:
  assumes "to_date start_date = Inl x \<or> to_date end_date = Inl x"
  shows "filter_dataframe_st \<sigma> df continents countries age_groups request_types
           start_date end_date = (df, \<sigma> @ [\<sigma> ! df])"
proof (cases "to_date start_date")
  case (Inl a)
  then show ?thesis by (simp add: filter_dataframe_st_def alloc_def)
next
  case (Inr s)
  with assms have "to_date end_date = Inl x" by simp
  with Inr show ?thesis by (simp add: filter_dataframe_st_def alloc_def)
qed

subsection \<open>The output is a subsequence and the input is left alone\<close>

text \<open>
  Claim C1.  For every store of frame objects, every frame \<open>df\<close> in it and every criteria,
  the frame that \<^verbatim>\<open>filter_dataframe\<close> returns is a subsequence of the rows of \<open>df\<close>: the
  same rows in the same relative order, none repeated.  Every object that existed before
  the call, \<open>df\<close> among them, has the same content after it; the call only adds objects.
  The returned frame is the one the value-level function computes.
\<close>

theorem filter_dataframe_subsequence_no_mutation:
  assumes "df < length \<sigma>"
  shows "case filter_dataframe_st \<sigma> df continents countries age_groups request_types
                start_date end_date
         of (out, \<sigma>') \<Rightarrow>
           out < length \<sigma>' \<and> subseq (\<sigma>' ! out) (\<sigma> ! df) \<and> take (length \<sigma>) \<sigma>' = \<sigma>
           \<and> \<sigma>' ! out = filter_dataframe (\<sigma> ! df) continents countries age_groups
                             request_types start_date end_date"
proof (cases rule: to_date_cases [of start_date end_date])
  case (raised x)
  then show ?thesis
    using assms
    by (simp add: filter_dataframe_st_raised [OF raised] filter_dataframe_raised [OF raised]
        nth_append)
next
  case (parsed s e)
  from filter_dataframe_st_parsed [OF parsed, of \<sigma> df continents countries age_groups request_types]
  show ?thesis
    by (auto simp: store_ok_def filter_dataframe_parsed [OF parsed] split: prod.splits)
qed

theorem filter_dataframe_subsequence_no_mutation_witness:
  "(0::nat) < length [scenario_store] \<and>
   (case filter_dataframe_st [scenario_store] 0 [] [''United States''] [] []
           (DateStr ''2023-01-01'') (DateStr ''2023-01-05'')
    of (out, \<sigma>') \<Rightarrow>
      out < length \<sigma>' \<and> subseq (\<sigma>' ! out) ([scenario_store] ! 0)
      \<and> take (length [scenario_store]) \<sigma>' = [scenario_store]
      \<and> \<sigma>' ! out = filter_dataframe ([scenario_store] ! 0) [] [''United States''] [] []
                        (DateStr ''2023-01-01'') (DateStr ''2023-01-05''))"
proof -
  have h: "(0::nat) < length [scenario_store]" by simp
  show ?thesis
    by (rule conjI [OF h filter_dataframe_subsequence_no_mutation [OF h]])
qed

subsection \<open>Identity on a store whose timestamps all parsed\<close>

text \<open>
  Claim C2, as stated, fails: with the four selections empty and a date range from the
  first to the last day of the store, a row whose timestamp is \<^verbatim>\<open>NaT\<close> is dropped, so the
  output is not the full store.
\<close>

theorem filter_dataframe_identity_fails_with_nat:
  "filter_dataframe store_with_nat [] [] [] [] (DateStr ''2023-01-01'') (DateStr ''2023-01-05'')
     = scenario_store
   \<and> scenario_store \<noteq> store_with_nat"
  by (simp add: filter_dataframe_def strptime_2023_01_01 strptime_2023_01_05 store_with_nat_def
      scenario_store_def row_eval)

text \<open>
  Claim C2, amended.  For every store in which every row has a parsed timestamp, filtering
  with the four selections empty and date bounds that parse and enclose the date of every
  row returns exactly the store.
\<close>

theorem filter_dataframe_identity:
  assumes "to_date start_date = Inr s" and "to_date end_date = Inr e"
    and "\<forall>r \<in> set df. \<exists>t. timestamp r = Some t \<and> date_le s (ts_date t) \<and> date_le (ts_date t) e"
  shows "filter_dataframe df [] [] [] [] start_date end_date = df"
proof -
  have "filter (row_selected s e [] [] [] []) df = df"
    using assms(3)
    by (auto simp: filter_id_conv row_selected_def date_ge_mask_def date_le_mask_def)
  then show ?thesis
    by (simp add: filter_dataframe_parsed [OF assms(1,2)])
qed

theorem filter_dataframe_identity_witness:
  "filter_dataframe scenario_store [] [] [] [] (DateStr ''2023-01-01'') (DateStr ''2023-01-05'')
     = scenario_store"
  using filter_dataframe_identity [OF strptime_2023_01_01 strptime_2023_01_05, of scenario_store]
  by (simp add: scenario_store_def row_eval)

subsection \<open>The date range is closed and compares dates\<close>

text \<open>
  Claim C3.  On the store of three requests dated 2023-01-01 (demo, United States, 25-34),
  2023-01-02 (job, Canada, 35-44) and 2023-01-05 (demo, United States, 25-34), at whatever
  time of day, the date range from 2023-01-01 to 2023-01-02 selects exactly the first two
  (both bounds are included, and only the date of a timestamp is compared), and the
  metrics of that selection are total 2, demo 1, job 1, ai_assistant 0.
\<close>

theorem scenario_closed_date_range:
  "filter_dataframe
     [log_row (Some (jan_2023 1 h1 m1 s1)) (Some ''demo'') ''United States'' ''25-34'',
      log_row (Some (jan_2023 2 h2 m2 s2)) (Some ''job'') ''Canada'' ''35-44'',
      log_row (Some (jan_2023 5 h3 m3 s3)) (Some ''demo'') ''United States'' ''25-34'']
     [] [] [] [] (DateStr ''2023-01-01'') (DateStr ''2023-01-02'')
   = [log_row (Some (jan_2023 1 h1 m1 s1)) (Some ''demo'') ''United States'' ''25-34'',
      log_row (Some (jan_2023 2 h2 m2 s2)) (Some ''job'') ''Canada'' ''35-44'']
   \<and> update_metrics
     [log_row (Some (jan_2023 1 h1 m1 s1)) (Some ''demo'') ''United States'' ''25-34'',
      log_row (Some (jan_2023 2 h2 m2 s2)) (Some ''job'') ''Canada'' ''35-44'',
      log_row (Some (jan_2023 5 h3 m3 s3)) (Some ''demo'') ''United States'' ''25-34'']
     [] [] [] [] (DateStr ''2023-01-01'') (DateStr ''2023-01-02'')
   = \<lparr>total_requests = 2, demo_requests = 1, job_placements = 1, ai_assistant = 0\<rparr>"
  by (simp add: update_metrics_def metric_counts_def filter_dataframe_def strptime_2023_01_01
      strptime_2023_01_02 row_eval)

subsection \<open>A date bound that does not parse\<close>

text \<open>
  Claim C5, as stated, fails: with a start date that does not parse, the code does not
  fall back to the first day of the store and go on filtering.  It returns the whole
  store, the rows of the United States included although only Canada is selected; with
  the first day of the store as the start date only the Canadian row is returned.
\<close>

theorem unparsable_bound_skips_every_predicate:
  "filter_dataframe scenario_store [] [''Canada''] [] []
     (DateStr ''not-a-date'') (DateStr ''2023-01-05'') = scenario_store
   \<and> filter_dataframe scenario_store [] [''Canada''] [] []
       (DateStr ''2023-01-01'') (DateStr ''2023-01-05'')
     = [log_row (Some (jan_2023 2 0 0 0)) (Some ''job'') ''Canada'' ''35-44'']
   \<and> scenario_store \<noteq> [log_row (Some (jan_2023 2 0 0 0)) (Some ''job'') ''Canada'' ''35-44'']"
  by (simp add: filter_dataframe_def strptime_not_a_date strptime_2023_01_01 strptime_2023_01_05
      scenario_store_def row_eval)

text \<open>
  Claim C5, amended.  If either date bound is a string that \<^verbatim>\<open>strptime\<close> rejects,
  \<^verbatim>\<open>filter_dataframe\<close> applies no predicate at all and returns the very frame object it was
  given, with its rows as they were (fail-open).  If both bounds parse, it returns a
  different, new object that holds the rows satisfying every predicate.
\<close>

theorem filter_dataframe_fail_open:
  assumes "df < length \<sigma>"
  shows "(to_date start_date = Inl ValueError \<or> to_date end_date = Inl ValueError \<longrightarrow>
            filter_dataframe_st \<sigma> df continents countries age_groups request_types
              start_date end_date = (df, \<sigma> @ [\<sigma> ! df])
            \<and> filter_dataframe (\<sigma> ! df) continents countries age_groups request_types
                start_date end_date = \<sigma> ! df)
       \<and> (\<forall>s e. to_date start_date = Inr s \<and> to_date end_date = Inr e \<longrightarrow>
            fst (filter_dataframe_st \<sigma> df continents countries age_groups request_types
                   start_date end_date) \<noteq> df
            \<and> filter_dataframe (\<sigma> ! df) continents countries age_groups request_types
                start_date end_date
              = filter (row_selected s e continents countries age_groups request_types) (\<sigma> ! df))"
proof (intro conjI impI allI)
  assume r: "to_date start_date = Inl ValueError \<or> to_date end_date = Inl ValueError"
  show "filter_dataframe_st \<sigma> df continents countries age_groups request_types
          start_date end_date = (df, \<sigma> @ [\<sigma> ! df])"
    by (rule filter_dataframe_st_raised [OF r])
  show "filter_dataframe (\<sigma> ! df) continents countries age_groups request_types
          start_date end_date = \<sigma> ! df"
    by (rule filter_dataframe_raised [OF r])
next
  fix s e
  assume p: "to_date start_date = Inr s \<and> to_date end_date = Inr e"
  then have p1: "to_date start_date = Inr s" and p2: "to_date end_date = Inr e"
    by simp_all
  from filter_dataframe_st_parsed [OF p1 p2, of \<sigma> df continents countries age_groups request_types]
  show "fst (filter_dataframe_st \<sigma> df continents countries age_groups request_types
               start_date end_date) \<noteq> df"
    using assms by (auto simp: store_ok_def)
  show "filter_dataframe (\<sigma> ! df) continents countries age_groups request_types
          start_date end_date
        = filter (row_selected s e continents countries age_groups request_types) (\<sigma> ! df)"
    by (rule filter_dataframe_parsed [OF p1 p2])
qed

theorem filter_dataframe_fail_open_witness:
  "filter_dataframe_st [scenario_store] 0 [] [''Canada''] [] []
     (DateStr ''not-a-date'') (DateStr ''2023-01-05'')
     = (0, [scenario_store] @ [[scenario_store] ! 0])
   \<and> filter_dataframe ([scenario_store] ! 0) [] [''Canada''] [] []
       (DateStr ''not-a-date'') (DateStr ''2023-01-05'') = [scenario_store] ! 0
   \<and> fst (filter_dataframe_st [scenario_store] 0 [] [''Canada''] [] []
            (DateStr ''2023-01-01'') (DateStr ''2023-01-05'')) \<noteq> 0
   \<and> filter_dataframe ([scenario_store] ! 0) [] [''Canada''] [] []
       (DateStr ''2023-01-01'') (DateStr ''2023-01-05'')
     = filter (row_selected \<lparr>year = 2023, month = 1, day = 1\<rparr>
                 \<lparr>year = 2023, month = 1, day = 5\<rparr> [] [''Canada''] [] [])
         ([scenario_store] ! 0)"
proof -
  have h: "(0::nat) < length [scenario_store]" by simp
  from filter_dataframe_fail_open [OF h, of "DateStr ''not-a-date''" "DateStr ''2023-01-05''"
         "[]" "[''Canada'']" "[]" "[]"]
    filter_dataframe_fail_open [OF h, of "DateStr ''2023-01-01''" "DateStr ''2023-01-05''"
         "[]" "[''Canada'']" "[]" "[]"]
  show ?thesis
    using strptime_not_a_date strptime_2023_01_01 strptime_2023_01_05 by blast
qed

subsection \<open>Rows without a timestamp never pass the date filter\<close>

text \<open>
  Claim C10.  When both date bounds parse (the path that does not raise), every row of the
  output has a parsed timestamp, whatever the criteria; hence a store that holds a row
  with an unparsed timestamp is never returned whole.
\<close>

theorem filtered_rows_have_timestamp:
  assumes "to_date start_date = Inr s" and "to_date end_date = Inr e"
  shows "(\<forall>r \<in> set (filter_dataframe df continents countries age_groups request_types
                      start_date end_date). timestamp r \<noteq> None)
       \<and> ((\<exists>r \<in> set df. timestamp r = None) \<longrightarrow>
            filter_dataframe df continents countries age_groups request_types
              start_date end_date \<noteq> df)"
proof -
  let ?out = "filter_dataframe df continents countries age_groups request_types
                start_date end_date"
  have out: "?out = filter (row_selected s e continents countries age_groups request_types) df"
    by (rule filter_dataframe_parsed [OF assms])
  have a: "\<forall>r \<in> set ?out. timestamp r \<noteq> None"
    by (auto simp: out row_selected_def date_ge_mask_def split: option.splits)
  have "?out \<noteq> df" if "\<exists>r \<in> set df. timestamp r = None"
  proof
    assume "?out = df"
    with a have "\<forall>r \<in> set df. timestamp r \<noteq> None" by simp
    with that show False by blast
  qed
  with a show ?thesis by blast
qed

theorem filtered_rows_have_timestamp_witness:
  "timestamp (hd (filter_dataframe store_with_nat [] [] [] []
                    (DateStr ''2023-01-01'') (DateStr ''2023-01-05''))) \<noteq> None
   \<and> filter_dataframe store_with_nat [] [] [] [] (DateStr ''2023-01-01'') (DateStr ''2023-01-05'')
     \<noteq> store_with_nat"
proof -
  let ?out = "filter_dataframe store_with_nat [] [] [] []
                (DateStr ''2023-01-01'') (DateStr ''2023-01-05'')"
  have ex: "\<exists>r \<in> set store_with_nat. timestamp r = None"
    by (simp add: store_with_nat_def log_row_def)
  have hd: "hd ?out \<in> set ?out"
    by (simp add: filter_dataframe_def strptime_2023_01_01 strptime_2023_01_05
        store_with_nat_def scenario_store_def row_eval)
  from filtered_rows_have_timestamp [OF strptime_2023_01_01 strptime_2023_01_05,
         of store_with_nat "[]" "[]" "[]" "[]"] ex hd
  show ?thesis by blast
qed

subsection \<open>Counting\<close>

lemma sum_list_insort_key:
  fixes g :: "'a \<Rightarrow> nat"
  shows "sum_list (map g (insort_key f x xs)) = g x + sum_list (map g xs)"
  by (induction xs) simp_all

lemma sum_list_sort_key:
  fixes g :: "'a \<Rightarrow> nat"
  shows "sum_list (map g (sort_key f xs)) = sum_list (map g xs)"
  by (induction xs) (simp_all add: sum_list_insort_key)

lemma set_unique: "set (unique xs) = set xs"
  by (simp add: unique_def)

lemma distinct_unique: "distinct (unique xs)"
  by (simp add: unique_def)

lemma sum_count_unique: "sum_list (map (count_list xs) (unique xs)) = length xs"
proof -
  have "sum_list (map (count_list xs) (unique xs)) = sum (count_list xs) (set (unique xs))"
    by (rule sum_list_distinct_conv_sum_set [OF distinct_unique])
  also have "\<dots> = length xs"
    by (simp add: set_unique sum_count_set)
  finally show ?thesis .
qed

lemma length_dropna:
  "length (dropna col) + length (filter (\<lambda>v. v = None) col) = length col"
  by (induction col) (auto simp: dropna_def split: option.splits)

lemma sum_value_counts: "sum_list (map snd (value_counts col)) = length (dropna col)"
proof -
  have "sum_list (map snd (value_counts col))
        = sum_list (map snd (map (\<lambda>v. (v, count_list (dropna col) v)) (unique (dropna col))))"
    by (simp add: value_counts_def Let_def sum_list_sort_key)
  also have "\<dots> = sum_list (map (count_list (dropna col)) (unique (dropna col)))"
    by (simp add: comp_def)
  also have "\<dots> = length (dropna col)"
    by (rule sum_count_unique)
  finally show ?thesis .
qed

subsection \<open>The total and the request-type distribution\<close>

text \<open>
  Claim C4, as stated, fails on a subset with a missing request type: the record passes
  the filter and is counted in the total, and \<^verbatim>\<open>value_counts\<close> drops it.
\<close>

theorem total_exceeds_distribution_on_missing_type:
  "total_requests (update_metrics [log_row (Some (jan_2023 1 0 0 0)) None ''Canada'' ''35-44'']
      [] [] [] [] (DateStr ''2023-01-01'') (DateStr ''2023-01-05'')) = 1
   \<and> sum_list (map snd (update_request_type_pie
      [log_row (Some (jan_2023 1 0 0 0)) None ''Canada'' ''35-44'']
      [] [] [] [] (DateStr ''2023-01-01'') (DateStr ''2023-01-05''))) = 0"
  by (simp add: update_metrics_def update_request_type_pie_def metric_counts_def
      request_type_counts_def value_counts_def dropna_def unique_def filter_dataframe_def
      strptime_2023_01_01 strptime_2023_01_05 row_eval)

text \<open>
  Claim C4, amended.  For every subset, the total equals the sum of the counts of the
  request-type distribution plus the number of records whose request type is missing, so
  the two are equal exactly when no record of the subset lacks a request type.  The total
  is also the sum of the three named counters and the number of records whose request type
  is none of demo, job and ai_assistant: those are in the total and in no named counter.
\<close>

theorem total_and_request_type_counts:
  "total_requests (metric_counts df)
     = sum_list (map snd (request_type_counts df))
       + length (filter (\<lambda>r. request_type r = None) df)
   \<and> total_requests (metric_counts df)
     = demo_requests (metric_counts df) + job_placements (metric_counts df)
       + ai_assistant (metric_counts df)
       + length (filter (\<lambda>r. request_type r \<noteq> Some ''demo'' \<and> request_type r \<noteq> Some ''job''
                           \<and> request_type r \<noteq> Some ''ai_assistant'') df)"
proof
  have "length (filter (\<lambda>v. v = None) (map request_type df))
        = length (filter (\<lambda>r. request_type r = None) df)"
    by (simp add: filter_map comp_def)
  with length_dropna [of "map request_type df"]
  show "total_requests (metric_counts df)
     = sum_list (map snd (request_type_counts df))
       + length (filter (\<lambda>r. request_type r = None) df)"
    by (simp add: metric_counts_def request_type_counts_def sum_value_counts)
  show "total_requests (metric_counts df)
     = demo_requests (metric_counts df) + job_placements (metric_counts df)
       + ai_assistant (metric_counts df)
       + length (filter (\<lambda>r. request_type r \<noteq> Some ''demo'' \<and> request_type r \<noteq> Some ''job''
                           \<and> request_type r \<noteq> Some ''ai_assistant'') df)"
    unfolding metric_counts_def by (induction df) auto
qed

subsection \<open>The age-group table\<close>

lemma nth_index_of: "x \<in> set xs \<Longrightarrow> xs ! index_of xs x = x"
  by (induction xs) auto

lemma index_of_less: "x \<in> set xs \<Longrightarrow> index_of xs x < length xs"
  by (induction xs) auto

lemma index_of_inj:
  assumes "x \<in> set xs" and "y \<in> set xs" and "index_of xs x = index_of xs y"
  shows "x = y"
  using assms nth_index_of by metis

lemma set_dropna: "set (dropna col) = {v. Some v \<in> set col}"
  by (induction col) (auto simp: dropna_def split: option.splits)

lemma count_dropna: "count_list (dropna col) v = count_list col (Some v)"
  by (induction col) (auto simp: dropna_def split: option.splits)

lemma set_value_counts:
  "set (value_counts col) = (\<lambda>v. (v, count_list col (Some v))) ` {v. Some v \<in> set col}"
  by (simp add: value_counts_def Let_def set_unique set_dropna count_dropna)

lemma distinct_value_counts: "distinct (map fst (value_counts col))"
proof -
  let ?xs = "map (\<lambda>v. (v, count_list (dropna col) v)) (unique (dropna col))"
  have "distinct (map fst ?xs)"
    by (simp add: comp_def distinct_unique)
  then have "distinct ?xs \<and> inj_on fst (set ?xs)"
    by (simp only: distinct_map)
  then have "distinct (sort_key (\<lambda>(v, c). - int c) ?xs)
             \<and> inj_on fst (set (sort_key (\<lambda>(v, c). - int c) ?xs))"
    by simp
  then show ?thesis
    by (simp only: value_counts_def Let_def distinct_map)
qed

lemma sorted_partition:
  fixes f :: "'a \<Rightarrow> nat"
  assumes "sorted (map f xs)"
    and "\<forall>x \<in> set xs. \<forall>y \<in> set xs. P x \<and> \<not> P y \<longrightarrow> f x < f y"
  shows "xs = filter P xs @ filter (\<lambda>x. \<not> P x) xs"
  using assms
proof (induction xs)
  case Nil
  then show ?case by simp
next
  case (Cons x xs)
  then have ih: "xs = filter P xs @ filter (\<lambda>x. \<not> P x) xs" by simp
  show ?case
  proof (cases "P x")
    case True
    with ih show ?thesis by simp
  next
    case False
    have "\<not> P y" if "y \<in> set xs" for y
    proof
      assume "P y"
      with False that Cons.prems(2) have "f y < f x" by simp
      moreover from Cons.prems(1) that have "f x \<le> f y" by simp
      ultimately show False by simp
    qed
    then have "filter P xs = []" "filter (\<lambda>x. \<not> P x) xs = xs"
      by (simp_all add: filter_empty_conv filter_id_conv)
    with False show ?thesis by simp
  qed
qed

lemma code_age_order: "map (index_of age_order) age_order = [0, 1, 2, 3, 4, 5]"
  by (simp add: age_order_def)

lemma age_known_entries:
  "filter (\<lambda>e. fst e \<noteq> None) (age_group_counts df)
   = map (age_entry df) (filter (\<lambda>g. Some g \<in> set (map age_group df)) age_order)"
proof -
  let ?col = "map age_group df"
  let ?k = "\<lambda>(g, c::nat). category_code age_order g"
  let ?cat = "\<lambda>(v, c::nat). (categorical age_order v, c)"
  let ?S = "{g \<in> set age_order. Some g \<in> set ?col}"
  let ?Q = "\<lambda>(v, c::nat). v \<in> set age_order"
  let ?L = "map ?cat (filter ?Q (value_counts ?col))"
  let ?R = "map (age_entry df) (filter (\<lambda>g. Some g \<in> set ?col) age_order)"
  have lhs: "filter (\<lambda>e. fst e \<noteq> None) (age_group_counts df) = sort_key ?k ?L"
  proof -
    have "(\<lambda>e. fst e \<noteq> None) \<circ> ?cat = ?Q"
      by (auto simp: fun_eq_iff categorical_def)
    then show ?thesis
      by (simp add: age_group_counts_def filter_sort filter_map)
  qed
  have setL: "set ?L = age_entry df ` ?S"
  proof -
    let ?e = "\<lambda>v. (v, count_list ?col (Some v))"
    have "set (filter ?Q (value_counts ?col)) = ?e ` ?S"
      by (auto simp: set_value_counts)
    then have "set ?L = ?cat ` ?e ` ?S"
      by (simp only: set_map)
    also have "\<dots> = (\<lambda>v. ?cat (?e v)) ` ?S"
      by (simp only: image_image)
    also have "\<dots> = age_entry df ` ?S"
      by (rule image_cong) (simp_all add: categorical_def age_entry_def)
    finally show ?thesis .
  qed
  have setR: "set ?R = age_entry df ` ?S"
    by auto
  have k_entry: "?k (age_entry df g) = index_of age_order g" for g
    by (simp add: age_entry_def category_code_def)
  have inj: "inj_on ?k (age_entry df ` ?S)"
  proof (rule inj_onI)
    fix a b
    assume "a \<in> age_entry df ` ?S" "b \<in> age_entry df ` ?S" "?k a = ?k b"
    then obtain g h where g: "a = age_entry df g" "g \<in> set age_order"
      and h: "b = age_entry df h" "h \<in> set age_order"
      and "index_of age_order g = index_of age_order h"
      using k_entry by auto
    then have "g = h" using index_of_inj by metis
    with g h show "a = b" by simp
  qed
  have distL: "distinct ?L"
  proof -
    have "distinct (value_counts ?col)"
      using distinct_value_counts [of ?col] by (simp only: distinct_map)
    then have d: "distinct (filter ?Q (value_counts ?col))" by simp
    have "inj_on ?cat (set (filter ?Q (value_counts ?col)))"
      by (rule inj_onI) (auto simp: categorical_def)
    with d show ?thesis by (simp only: distinct_map simp_thms)
  qed
  have "sort_key ?k ?L = ?R"
  proof (rule map_sorted_distinct_set_unique [where f = ?k])
    show "inj_on ?k (set (sort_key ?k ?L) \<union> set ?R)"
      using inj by (simp only: set_sort setL setR Un_absorb)
    show "sorted (map ?k (sort_key ?k ?L))"
      by (rule sorted_sort_key)
    show "distinct (map ?k (sort_key ?k ?L))"
      using distL inj by (simp only: distinct_map distinct_sort set_sort setL simp_thms)
    have mapR: "map ?k ?R = map (index_of age_order) (filter (\<lambda>g. Some g \<in> set ?col) age_order)"
      by (simp add: comp_def k_entry)
    have "sorted (map (index_of age_order) age_order)"
      "distinct (map (index_of age_order) age_order)"
      by (simp_all add: code_age_order)
    then show "sorted (map ?k ?R)" "distinct (map ?k ?R)"
      unfolding mapR by (simp_all only: sorted_filter distinct_map_filter)
    show "set (sort_key ?k ?L) = set ?R"
      by (simp only: set_sort setL setR)
  qed
  with lhs show ?thesis by simp
qed

lemma age_unknown_last:
  "age_group_counts df
   = filter (\<lambda>e. fst e \<noteq> None) (age_group_counts df)
     @ filter (\<lambda>e. \<not> fst e \<noteq> None) (age_group_counts df)"
proof (rule sorted_partition [where f = "\<lambda>(g, c). category_code age_order g"])
  show "sorted (map (\<lambda>(g, c). category_code age_order g) (age_group_counts df))"
    unfolding age_group_counts_def by (rule sorted_sort_key)
  show "\<forall>x \<in> set (age_group_counts df). \<forall>y \<in> set (age_group_counts df).
          fst x \<noteq> None \<and> \<not> fst y \<noteq> None \<longrightarrow>
          (case x of (g, c) \<Rightarrow> category_code age_order g)
            < (case y of (g, c) \<Rightarrow> category_code age_order g)"
    by (auto simp: age_group_counts_def categorical_def category_code_def index_of_less
        split: if_splits)
qed


lemma value_counts_positive: "(v, c) \<in> set (value_counts col) \<Longrightarrow> 0 < c"
proof -
  assume "(v, c) \<in> set (value_counts col)"
  then have "Some v \<in> set col" and "c = count_list col (Some v)"
    by (auto simp: set_value_counts)
  moreover from this have "count_list col (Some v) \<noteq> 0"
    by (simp only: count_list_0_iff not_not)
  ultimately show "0 < c" by simp
qed

text \<open>
  Claim C6.  For every subset, the age-group table lists the defined age groups that occur
  in the subset, each with its number of records, in the fixed order 18-24, 25-34, 35-44,
  45-54, 55-64, 65+, whatever the order of the records; lines for values outside the six
  follow them.  On a subset that contains all six groups the first six lines are the six
  groups in that order.  A group that does not occur has no line: every line has a
  positive count.
\<close>

theorem age_group_counts_fixed_order:
  "filter (\<lambda>e. fst e \<noteq> None) (age_group_counts df)
     = map (age_entry df) (filter (\<lambda>g. Some g \<in> set (map age_group df)) age_order)
   \<and> age_group_counts df
     = filter (\<lambda>e. fst e \<noteq> None) (age_group_counts df)
       @ filter (\<lambda>e. fst e = None) (age_group_counts df)
   \<and> ((\<forall>g \<in> set age_order. Some g \<in> set (map age_group df)) \<longrightarrow>
        take 6 (age_group_counts df) = map (age_entry df) age_order)
   \<and> (\<forall>e \<in> set (age_group_counts df). 0 < snd e)"
proof (intro conjI impI)
  show known: "filter (\<lambda>e. fst e \<noteq> None) (age_group_counts df)
     = map (age_entry df) (filter (\<lambda>g. Some g \<in> set (map age_group df)) age_order)"
    by (rule age_known_entries)
  show last: "age_group_counts df
     = filter (\<lambda>e. fst e \<noteq> None) (age_group_counts df)
       @ filter (\<lambda>e. fst e = None) (age_group_counts df)"
    using age_unknown_last [of df] by simp
  show "take 6 (age_group_counts df) = map (age_entry df) age_order"
    if all: "\<forall>g \<in> set age_order. Some g \<in> set (map age_group df)"
  proof -
    from all have "filter (\<lambda>g. Some g \<in> set (map age_group df)) age_order = age_order"
      by (simp only: filter_id_conv)
    with known have k: "filter (\<lambda>e. fst e \<noteq> None) (age_group_counts df)
                        = map (age_entry df) age_order"
      by simp
    have "length (map (age_entry df) age_order) = 6"
      by (simp add: age_order_def)
    with k last show ?thesis
      by (metis append_eq_conv_conj)
  qed
  show "\<forall>e \<in> set (age_group_counts df). 0 < snd e"
    by (auto simp: age_group_counts_def dest: value_counts_positive)
qed

theorem age_group_counts_fixed_order_witness:
  "take 6 (age_group_counts six_groups_store)
   = [(Some ''18-24'', 2), (Some ''25-34'', 1), (Some ''35-44'', 1), (Some ''45-54'', 1),
      (Some ''55-64'', 1), (Some ''65+'', 1)]"
proof -
  have all: "\<forall>g \<in> set age_order. Some g \<in> set (map age_group six_groups_store)"
    by (simp add: age_order_def six_groups_store_def log_row_def)
  have "map (age_entry six_groups_store) age_order
        = [(Some ''18-24'', 2), (Some ''25-34'', 1), (Some ''35-44'', 1), (Some ''45-54'', 1),
           (Some ''55-64'', 1), (Some ''65+'', 1)]"
    by (simp add: age_entry_def age_order_def six_groups_store_def log_row_def)
  with age_group_counts_fixed_order [of six_groups_store] all show ?thesis by simp
qed

subsection \<open>The statistics table\<close>

















subsection \<open>Registration\<close>





subsection \<open>Routing and login\<close>

text \<open>
  Claim C9, as stated, fails: a session that never logged in gets the dashboard layout by
  putting the dashboard path into the address bar.
\<close>

theorem dashboard_shown_without_login:
  "session_user (run default_users initial_client [Navigate ''/dashboard'']) = None
   \<and> page_content (run default_users initial_client [Navigate ''/dashboard'']) = dashboard_layout"
  by (simp add: run_def initial_client_def page_content_def display_page_def)

text \<open>
  Claim C9, amended.  For every session, authenticated or not, navigating to the dashboard
  path yields the dashboard layout.  The login is what redirects to the dashboard path:
  it does so exactly on a click with a username of \<^verbatim>\<open>USERS\<close> and that account's password,
  and then records the account in the session and reports no error.  Any other login click
  redirects to the login path with the error "Invalid username or password" and leaves the
  session as it was; without a click nothing is updated.
\<close>

theorem dashboard_routing_and_login:
  "page_content (step us c (Navigate ''/dashboard'')) = dashboard_layout
   \<and> (fst (fst (login us n_clicks username password c)) = Val ''/dashboard''
        \<longleftrightarrow> 0 < n_clicks
            \<and> (\<exists>u a. username = Some u \<and> lookup us u = Some a \<and> Some (u_password a) = password))
   \<and> (fst (fst (login us n_clicks username password c)) = Val ''/dashboard'' \<longrightarrow>
         (\<exists>u a. username = Some u \<and> lookup us u = Some a
            \<and> snd (login us n_clicks username password c) = c\<lparr>session_user := Some (u_id a)\<rparr>))
   \<and> (fst (fst (login us n_clicks username password c)) \<noteq> Val ''/dashboard'' \<longrightarrow>
         snd (login us n_clicks username password c) = c)
   \<and> (0 < n_clicks
        \<and> (\<exists>u a. username = Some u \<and> lookup us u = Some a \<and> Some (u_password a) = password) \<longrightarrow>
         fst (login us n_clicks username password c) = (Val ''/dashboard'', Val []))
   \<and> (0 < n_clicks
        \<and> \<not> (\<exists>u a. username = Some u \<and> lookup us u = Some a \<and> Some (u_password a) = password) \<longrightarrow>
         login us n_clicks username password c
         = ((Val ''/login'', Val ''Invalid username or password''), c))
   \<and> (\<not> 0 < n_clicks \<longrightarrow>
         login us n_clicks username password c = ((no_update, no_update), c))"
  by (auto simp: page_content_def display_page_def login_def split: option.splits)

theorem dashboard_routing_and_login_witness:
  "page_content (step default_users initial_client (Navigate ''/dashboard'')) = dashboard_layout
   \<and> fst (fst (login default_users 1 (Some ''admin'') (Some ''password123'') initial_client))
       = Val ''/dashboard''
   \<and> snd (login default_users 1 (Some ''admin'') (Some ''wrong'') initial_client) = initial_client
   \<and> fst (login default_users 1 (Some ''admin'') (Some ''password123'') initial_client)
       = (Val ''/dashboard'', Val [])
   \<and> login default_users 1 (Some ''admin'') (Some ''wrong'') initial_client
       = ((Val ''/login'', Val ''Invalid username or password''), initial_client)
   \<and> login default_users 0 (Some ''admin'') (Some ''password123'') initial_client
       = ((no_update, no_update), initial_client)"
proof -
  have ok: "0 < (1::int) \<and> (\<exists>u a. Some ''admin'' = Some u \<and> lookup default_users u = Some a
              \<and> Some (u_password a) = Some ''password123'')"
    by (simp add: lookup_def default_users_def)
  have bad: "\<not> (\<exists>u a. Some ''admin'' = Some u \<and> lookup default_users u = Some a
              \<and> Some (u_password a) = Some ''wrong'')"
    by (simp add: lookup_def default_users_def)
  have pos: "0 < (1::int)" and zero: "\<not> 0 < (0::int)"
    by simp_all
  from dashboard_routing_and_login [of default_users initial_client 1 "Some ''admin''" "Some ''password123''"] ok
    dashboard_routing_and_login [of default_users initial_client 1 "Some ''admin''" "Some ''wrong''"] bad pos
    dashboard_routing_and_login [of default_users initial_client 0 "Some ''admin''" "Some ''password123''"] zero
  show ?thesis by blast
qed

end
